theory Spec2Isabelle
  imports Main
begin

section \<open>JavaScript values used by the bot\<close>

text \<open>
  The payloads are JSON parsed by the HTTP framework. The model is typed after the
  data model of the bot: a property that holds a string or is missing is a
  \<open>string option\<close>, where \<open>None\<close> stands for both \<open>undefined\<close> and \<open>null\<close>
  (the code never tells them apart: it only tests truthiness, calls a string method, or
  compares with \<open>===\<close> against a string). Strings are ASCII.
\<close>

datatype error = TypeError

text \<open>Truthiness of an optional string: \<open>undefined\<close>, \<open>null\<close> and \<open>""\<close> are falsy.\<close>

fun truthy :: "string option \<Rightarrow> bool" where
  "truthy None = False"
| "truthy (Some s) = (s \<noteq> [])"

text \<open>\<open>a || b\<close> is \<open>a\<close> when \<open>a\<close> is truthy and \<open>b\<close> otherwise.\<close>

definition js_or :: "string option \<Rightarrow> string option \<Rightarrow> string option" where
  "js_or a b = (if truthy a then a else b)"

text \<open>\<open>String.prototype.toLowerCase\<close> on ASCII.\<close>

definition lower_char :: "char \<Rightarrow> char" where
  "lower_char c =
     (let n = (of_char c :: nat) in if 65 \<le> n \<and> n \<le> 90 then char_of (n + 32) else c)"

definition toLowerCase :: "string \<Rightarrow> string" where
  "toLowerCase s = map lower_char s"

text \<open>
  \<open>v.toLowerCase()\<close> where \<open>v\<close> may be \<open>undefined\<close> or \<open>null\<close>: reading a property of
  either raises a TypeError.
\<close>

fun toLowerCase_opt :: "string option \<Rightarrow> error + string" where
  "toLowerCase_opt None = Inl TypeError"
| "toLowerCase_opt (Some s) = Inr (toLowerCase s)"

text \<open>\<open>s.includes(t)\<close>: \<open>t\<close> occurs in \<open>s\<close> as a contiguous substring.\<close>

fun starts_with :: "string \<Rightarrow> string \<Rightarrow> bool" where
  "starts_with s [] = True"
| "starts_with [] (c # t) = False"
| "starts_with (d # s) (c # t) = (d = c \<and> starts_with s t)"

fun includes_str :: "string \<Rightarrow> string \<Rightarrow> bool" where
  "includes_str [] t = (t = [])"
| "includes_str (c # s) t = (starts_with (c # s) t \<or> includes_str s t)"

subsection \<open>Printing numbers\<close>

text \<open>
  The decimal digits of an integer that is not negative. Numbers are \<open>int\<close> throughout:
  the bot computes with JavaScript numbers that hold integers.
\<close>

definition digit_char :: "int \<Rightarrow> char" where
  "digit_char d = char_of (48 + d)"

function show_digits :: "int \<Rightarrow> string" where
  "show_digits n =
     (if n < 10 then [digit_char n] else show_digits (n div 10) @ [digit_char (n mod 10)])"
  by pat_completeness auto
termination
  by (relation "measure nat") auto

declare show_digits.simps [simp del]

text \<open>\<open>n.toString()\<close> for an integer \<open>n\<close>.\<close>

definition show_int :: "int \<Rightarrow> string" where
  "show_int i = (if i < 0 then CHR ''-'' # show_digits (- i) else show_digits i)"

subsection \<open>Whitespace, lines and \<open>parseInt\<close>\<close>

text \<open>The white space and line terminators of JavaScript that are ASCII.\<close>

definition is_space :: "char \<Rightarrow> bool" where
  "is_space c = (let n = (of_char c :: nat) in (9 \<le> n \<and> n \<le> 13) \<or> n = 32)"


definition is_digit :: "char \<Rightarrow> bool" where
  "is_digit c = (let n = (of_char c :: nat) in 48 \<le> n \<and> n \<le> 57)"

text \<open>\<open>s.trim()\<close>.\<close>

definition trim :: "string \<Rightarrow> string" where
  "trim s = rev (dropWhile is_space (rev (dropWhile is_space s)))"

text \<open>
  \<open>s.split('\n')\<close>: the result is never empty (the empty string gives one empty line),
  so the first case of the \<open>case\<close> below does not occur.
\<close>

fun split_lines :: "string \<Rightarrow> string list" where
  "split_lines [] = [[]]"
| "split_lines (c # cs) =
     (case split_lines cs of
        [] \<Rightarrow> []
      | l # ls \<Rightarrow> if c = CHR 0x0A then [] # l # ls else (c # l) # ls)"

text \<open>The value of a character as a digit in a radix up to 36, as \<open>parseInt\<close> reads it.\<close>

definition digit_value :: "char \<Rightarrow> nat option" where
  "digit_value c =
     (let n = (of_char c :: nat)
      in if 48 \<le> n \<and> n \<le> 57 then Some (n - 48)
         else if 97 \<le> n \<and> n \<le> 122 then Some (n - 87)
         else if 65 \<le> n \<and> n \<le> 90 then Some (n - 55)
         else None)"

definition is_radix_digit :: "nat \<Rightarrow> char \<Rightarrow> bool" where
  "is_radix_digit radix c = (case digit_value c of None \<Rightarrow> False | Some d \<Rightarrow> d < radix)"

definition digits_value :: "nat \<Rightarrow> string \<Rightarrow> nat" where
  "digits_value radix ds = foldl (\<lambda>acc c. acc * radix + (case digit_value c of None \<Rightarrow> 0 | Some d \<Rightarrow> d)) 0 ds"

text \<open>
  \<open>parseInt(str)\<close> without a radix: leading white space is skipped, a sign is read, the
  prefix \<open>0x\<close> or \<open>0X\<close> selects radix 16, and the longest run of digits is the value;
  \<open>None\<close> is \<open>NaN\<close>. The value is the exact integer, which is the double that the code
  gets as long as its magnitude is below \<open>2 ^ 53\<close>; the statements below that read a
  quantity with \<open>parseInt\<close> carry a range as a hypothesis.
\<close>

definition parseInt :: "string \<Rightarrow> int option" where
  "parseInt str =
     (let s1 = dropWhile is_space str;
          negative = starts_with s1 ''-'';
          s2 = (if starts_with s1 ''-'' \<or> starts_with s1 ''+'' then tl s1 else s1);
          hex = (starts_with s2 ''0x'' \<or> starts_with s2 ''0X'');
          radix = (if hex then 16 else 10);
          s3 = (if hex then drop 2 s2 else s2);
          ds = takeWhile (is_radix_digit radix) s3
      in if ds = [] then None
         else Some ((if negative then - 1 else 1) * int (digits_value radix ds)))"

section \<open>Amount formatting\<close>

text \<open>
  A JavaScript number as the bot meets it: \<open>NaN\<close>, or a double that holds an integer.
\<close>

datatype number = NaN | Number int

text \<open>
  The model computes with the integers exactly, where JavaScript computes with doubles,
  and it prints a quotient \<open>n / 10 ^ k\<close> in exact decimals, where JavaScript prints the
  shortest decimal that reads back as the double quotient. The two agree on the integers
  of magnitude below \<open>10 ^ 15\<close>: such an integer and a product of this size are held by a
  double exactly, the quotient by \<open>1000\<close> or \<open>1000000\<close> has at most 15 significant
  digits, and a decimal of at most 15 significant digits is the shortest one of its
  double. Outside this range the model does not follow the rounding of doubles; every
  statement about an amount below carries the range as a hypothesis.
\<close>

definition in_double_range :: "int \<Rightarrow> bool" where
  "in_double_range a = (\<bar>a\<bar> < 10 ^ 15)"

text \<open>
  \<open>x * quantity\<close> where \<open>x\<close> is a property that may be missing: \<open>undefined * q\<close> is
  \<open>NaN\<close>.
\<close>

fun js_times :: "int option \<Rightarrow> int \<Rightarrow> number" where
  "js_times None q = NaN"
| "js_times (Some a) q = Number (a * q)"

definition pad_zeros :: "nat \<Rightarrow> string \<Rightarrow> string" where
  "pad_zeros k ds = replicate (k - length ds) (CHR ''0'') @ ds"

definition strip_trailing_zeros :: "string \<Rightarrow> string" where
  "strip_trailing_zeros ds = rev (dropWhile (\<lambda>c. c = CHR ''0'') (rev ds))"

text \<open>
  The number-to-string conversion of the quotient \<open>n / 10 ^ k\<close> for \<open>n\<close> not negative:
  the integer part, and after a point the \<open>k\<close> fraction digits without their trailing
  zeros, when the division leaves a rest.
\<close>

definition show_quotient :: "int \<Rightarrow> nat \<Rightarrow> string" where
  "show_quotient n k =
     (let q = n div 10 ^ k; r = n mod 10 ^ k
      in if r = 0 then show_digits q
         else show_digits q @ ''.'' @ strip_trailing_zeros (pad_zeros k (show_digits r)))"

text \<open>
  \<open>formatAmount\<close>. No comparison with \<open>NaN\<close> holds, so \<open>NaN\<close> reaches the last line, and
  \<open>NaN.toString()\<close> is \<open>"NaN"\<close>.
\<close>

fun formatAmount :: "number \<Rightarrow> string" where
  "formatAmount NaN = ''NaN''"
| "formatAmount (Number amount) =
     (if amount \<ge> 1000000 then show_quotient amount 6 @ ''m''
      else if amount \<ge> 1000 then show_quotient amount 3 @ ''k''
      else show_int amount)"

declare formatAmount.simps [simp del]



section \<open>Configuration\<close>

text \<open>
  \<open>CONFIG.products\<close> is an object from product id to product configuration: an
  association list of its own properties, with distinct keys, in the order of
  \<open>Object.entries\<close>.
\<close>

record product_config =
  name :: string
  amountPerUnit :: int
  onPurchaseCommand :: "string option"

record config =
  products :: "(string \<times> product_config) list"
  customFieldName :: string

text \<open>
  \<open>parseProductConfig\<close>: the argument is the environment variable after \<open>JSON.parse\<close>,
  \<open>None\<close> when it is not set.
\<close>

definition parseProductConfig :: "(string \<times> product_config) list option \<Rightarrow> (string \<times> product_config) list" where
  "parseProductConfig configString =
     (case configString of
        None \<Rightarrow> [(''default'', \<lparr>name = ''Default Package'', amountPerUnit = 1000000,
                               onPurchaseCommand = Some ''/afk 33''\<rparr>)]
      | Some parsed \<Rightarrow> parsed)"

section \<open>The command queue\<close>

text \<open>
  The module-level variables \<open>bot\<close>, \<open>isReady\<close> and \<open>commandQueue\<close>, with what the
  surroundings observe:
  \<^item> \<open>bot\<close> is whether the variable holds a bot object (it is \<open>null\<close> before
    \<open>createBot\<close> runs);
  \<^item> \<open>sent\<close> is the list of \<open>bot.chat\<close> calls, each with the time of the call;
  \<^item> \<open>clock\<close> is the time of the event loop in milliseconds. A JavaScript function runs
    to completion: time passes only when control returns to the event loop, which the
    functions below never do by themselves;
  \<^item> \<open>timers\<close> are the pending \<open>setTimeout\<close> calls, each with its due time;
  \<^item> \<open>purchaseLog\<close> is the console trace of \<open>processPurchase\<close>: one entry per call, made
    of the invoice id, the product name and the quantity that the call prints on entry,
    and the recipient name.
\<close>

datatype timer_action = ResolveDelay | CreateBot

record purchase_data =
  invoiceId :: "string option"
  productName :: "string option"
  quantity :: int
  inGameName :: "string option"
  productId :: "string option"
  status :: "string option"

record state =
  bot :: bool
  isReady :: bool
  commandQueue :: "string list"
  sent :: "(nat \<times> string) list"
  clock :: nat
  timers :: "(nat \<times> timer_action) list"
  purchaseLog :: "purchase_data list"

text \<open>
  \<open>executeCommand\<close> returns the state and what the function returns: \<open>None\<close> for
  \<open>undefined\<close>, \<open>Some d\<close> for a promise that a timer resolves \<open>d\<close> milliseconds later.
\<close>

definition executeCommand :: "string \<Rightarrow> state \<Rightarrow> state \<times> nat option" where
  "executeCommand command s =
     (if \<not> isReady s \<or> \<not> bot s
      then (s\<lparr>commandQueue := command # commandQueue s\<rparr>, None)
      else (s\<lparr>sent := sent s @ [(clock s, command)],
               timers := timers s @ [(clock s + 500, ResolveDelay)]\<rparr>, Some 500))"

text \<open>
  The loop of \<open>processCommandQueue\<close> calls \<open>executeCommand\<close> and drops what it returns:
  there is no \<open>await\<close>, and the function is not \<open>async\<close>. With \<open>isReady\<close> set and no
  bot, \<open>executeCommand\<close> puts the command back and the loop never ends, so the function
  is partial: \<open>None\<close> is a run that does not return.
\<close>

partial_function (option) processCommandQueue :: "state \<Rightarrow> state option" where
  "processCommandQueue s =
     (if commandQueue s \<noteq> [] \<and> isReady s
      then processCommandQueue
             (fst (executeCommand (hd (commandQueue s)) (s\<lparr>commandQueue := tl (commandQueue s)\<rparr>)))
      else Some s)"

declare processCommandQueue.simps [code]

definition queueCommand :: "string \<Rightarrow> state \<Rightarrow> state option" where
  "queueCommand command s =
     (let s1 = s\<lparr>commandQueue := commandQueue s @ [command]\<rparr>
      in if isReady s1 then processCommandQueue s1 else Some s1)"

text \<open>The handlers that \<open>createBot\<close> registers on the bot, and \<open>createBot\<close> itself.\<close>

definition createBot :: "state \<Rightarrow> state" where
  "createBot s = s\<lparr>bot := True\<rparr>"




section \<open>Processing a purchase\<close>

datatype completion = Returned | Threw error

text \<open>
  The catalog is a plain object, so \<open>CONFIG.products[k]\<close> finds the own property \<open>k\<close>, and
  otherwise what every object inherits from \<open>Object.prototype\<close> under the names below: a
  function, or the prototype itself for \<open>__proto__\<close>. Such a value is truthy and has
  neither \<open>onPurchaseCommand\<close> nor \<open>amountPerUnit\<close>.
\<close>

definition object_prototype_names :: "string list" where
  "object_prototype_names =
     [''constructor'', ''__defineGetter__'', ''__defineSetter__'', ''hasOwnProperty'',
      ''__lookupGetter__'', ''__lookupSetter__'', ''isPrototypeOf'', ''propertyIsEnumerable'',
      ''toString'', ''valueOf'', ''__proto__'', ''toLocaleString'']"

datatype matched = Configured product_config | Inherited

fun onPurchaseCommand_of :: "matched \<Rightarrow> string option" where
  "onPurchaseCommand_of (Configured pc) = onPurchaseCommand pc"
| "onPurchaseCommand_of Inherited = None"

fun amountPerUnit_of :: "matched \<Rightarrow> int option" where
  "amountPerUnit_of (Configured pc) = Some (amountPerUnit pc)"
| "amountPerUnit_of Inherited = None"

text \<open>\<open>data.productId && CONFIG.products[data.productId]\<close>, with the key when it is truthy.\<close>

fun lookupById :: "(string \<times> product_config) list \<Rightarrow> string option \<Rightarrow> (string \<times> matched) option" where
  "lookupById ps None = None"
| "lookupById ps (Some k) =
     (if k = [] then None
      else case map_of ps k of
             Some pc \<Rightarrow> Some (k, Configured pc)
           | None \<Rightarrow> if k \<in> set object_prototype_names then Some (k, Inherited) else None)"

text \<open>
  The loop over \<open>Object.entries(CONFIG.products)\<close>: each round evaluates
  \<open>config.name.toLowerCase() === data.productName.toLowerCase()\<close>, which throws when
  the product name is \<open>null\<close> or \<open>undefined\<close>.
\<close>

fun matchByName :: "(string \<times> product_config) list \<Rightarrow> string option \<Rightarrow> error + (string \<times> matched) option" where
  "matchByName [] pn = Inr None"
| "matchByName ((pid, pc) # rest) pn =
     (case toLowerCase_opt pn of
        Inl e \<Rightarrow> Inl e
      | Inr l \<Rightarrow>
          if toLowerCase (name pc) = l then Inr (Some (pid, Configured pc))
          else matchByName rest pn)"

text \<open>The matched product id and configuration, \<open>Inr None\<close> when \<open>productConfig\<close> stays \<open>null\<close>.\<close>

definition findProduct :: "config \<Rightarrow> purchase_data \<Rightarrow> error + (string \<times> matched) option" where
  "findProduct cfg data =
     (case lookupById (products cfg) (productId data) of
        Some m \<Rightarrow> Inr (Some m)
      | None \<Rightarrow> matchByName (products cfg) (productName data))"

definition payCommand :: "string \<Rightarrow> string \<Rightarrow> string" where
  "payCommand recipient formattedAmount = ''/pay '' @ recipient @ '' '' @ formattedAmount"

definition processPurchase :: "config \<Rightarrow> purchase_data \<Rightarrow> state \<Rightarrow> (completion \<times> state) option" where
  "processPurchase cfg data s0 =
     (let s = s0\<lparr>purchaseLog := purchaseLog s0 @ [data]\<rparr>
      in case inGameName data of
           None \<Rightarrow> Some (Returned, s)
         | Some recipient \<Rightarrow>
             if recipient = [] then Some (Returned, s)
             else case findProduct cfg data of
                    Inl e \<Rightarrow> Some (Threw e, s)
                  | Inr None \<Rightarrow> Some (Returned, s)
                  | Inr (Some (matchedProductId, productConfig)) \<Rightarrow>
                      (case (case onPurchaseCommand_of productConfig of
                               None \<Rightarrow> Some s
                             | Some c \<Rightarrow> if c = [] then Some s else queueCommand c s) of
                         None \<Rightarrow> None
                       | Some s1 \<Rightarrow>
                           (let totalAmount = js_times (amountPerUnit_of productConfig) (quantity data);
                                formattedAmount = formatAmount totalAmount
                            in case queueCommand (payCommand recipient formattedAmount) s1 of
                                 None \<Rightarrow> None
                               | Some s2 \<Rightarrow> Some (Returned, s2))))"

section \<open>The structured invoice webhook\<close>

text \<open>
  The body of \<open>POST /webhook/sellauth\<close>. The fields are those the handler reads; \<open>inv_id\<close>,
  \<open>inv_status\<close>, \<open>item_name\<close> and \<open>item_quantity\<close> are \<open>id\<close>, \<open>status\<close>, \<open>name\<close> and
  \<open>quantity\<close> in the source. \<open>custom_fields\<close> is an object (an association list, read with
  \<open>map_of\<close>), \<open>custom_field_values\<close> and \<open>items\<close> are arrays; \<open>None\<close> is a missing or
  \<open>null\<close> property. A quantity is a JSON integer.
\<close>

record custom_field =
  cf_name :: "string option"
  cf_value :: "string option"

record line_item =
  product_name :: "string option"
  item_name :: "string option"
  item_quantity :: "int option"

record invoice =
  inv_id :: "string option"
  invoice_id :: "string option"
  inv_status :: "string option"
  custom_fields :: "(string \<times> string) list option"
  custom_field_values :: "custom_field list option"
  items :: "line_item list option"

datatype response = Response nat string

text \<open>\<open>item.quantity || 1\<close>: a missing quantity and the quantity 0 are falsy.\<close>

fun quantity_or_1 :: "int option \<Rightarrow> int" where
  "quantity_or_1 None = 1"
| "quantity_or_1 (Some q) = (if q = 0 then 1 else q)"

text \<open>
  The branch that fills \<open>data.inGameName\<close>: the \<open>custom_fields\<close> object when the invoice
  has one, \<^emph>\<open>else\<close> the \<open>custom_field_values\<close> array when it has one. The object is
  read at the configured field name as an association list of its own properties; this
  is the read of the code when the configured name is not one that every object
  inherits (\<open>object_prototype_names\<close>), which the statements about the recipient of
  an invoice ask of the configuration.
\<close>

definition extractInGameName :: "config \<Rightarrow> invoice \<Rightarrow> string option" where
  "extractInGameName cfg invoice =
     (case custom_fields invoice of
        Some cfs \<Rightarrow> map_of cfs (customFieldName cfg)
      | None \<Rightarrow>
          (case custom_field_values invoice of
             Some fvs \<Rightarrow>
               (case find (\<lambda>f. cf_name f = Some (customFieldName cfg)) fvs of
                  Some field \<Rightarrow> cf_value field
                | None \<Rightarrow> None)
           | None \<Rightarrow> None))"

text \<open>
  The loop over \<open>invoice.items\<close>. It writes the product name and the quantity of each
  item into the one \<open>data\<close> object and awaits \<open>processPurchase\<close>; an exception leaves the
  loop for the \<open>catch\<close> of the handler.
\<close>

definition itemData :: "purchase_data \<Rightarrow> line_item \<Rightarrow> purchase_data" where
  "itemData data item =
     data\<lparr>productName := js_or (product_name item) (item_name item),
          quantity := quantity_or_1 (item_quantity item)\<rparr>"

fun processItems :: "config \<Rightarrow> purchase_data \<Rightarrow> line_item list \<Rightarrow> state \<Rightarrow> (completion \<times> state) option" where
  "processItems cfg data [] s = Some (Returned, s)"
| "processItems cfg data (item # rest) s =
     (case processPurchase cfg (itemData data item) s of
        None \<Rightarrow> None
      | Some (Threw e, s1) \<Rightarrow> Some (Threw e, s1)
      | Some (Returned, s1) \<Rightarrow> processItems cfg (itemData data item) rest s1)"

definition webhook_sellauth :: "config \<Rightarrow> invoice \<Rightarrow> state \<Rightarrow> (response \<times> state) option" where
  "webhook_sellauth cfg invoice s =
     (let data = \<lparr>invoiceId = js_or (inv_id invoice) (invoice_id invoice), productName = None,
                  quantity = 1, inGameName = None, productId = None,
                  status = inv_status invoice\<rparr>
      in if status data \<noteq> Some ''completed'' then Some (Response 200 ''OK'', s)
         else
           let data1 = data\<lparr>inGameName := extractInGameName cfg invoice\<rparr>
           in if \<not> truthy (inGameName data1) then Some (Response 200 ''OK'', s)
              else case items invoice of
                     None \<Rightarrow> Some (Response 200 ''OK'', s)
                   | Some its \<Rightarrow>
                       (case processItems cfg data1 its s of
                          None \<Rightarrow> None
                        | Some (Returned, s1) \<Rightarrow> Some (Response 200 ''OK'', s1)
                        | Some (Threw e, s1) \<Rightarrow> Some (Response 500 ''Internal Server Error'', s1)))"

section \<open>The chat embed webhook\<close>

text \<open>
  The body of \<open>POST /webhook/discord\<close>: \<open>embeds\<close> is an array of embeds, of which the
  parsers read the first; \<open>embed_fields\<close> is \<open>fields\<close> in the source, and \<open>field_name\<close> and
  \<open>field_value\<close> are \<open>name\<close> and \<open>value\<close> of an embed field.
\<close>

record embed_field =
  field_name :: string
  field_value :: string

record embed =
  title :: "string option"
  description :: "string option"
  embed_fields :: "embed_field list option"

record discord_body =
  embeds :: "embed list option"

text \<open>\<open>embed.title && embed.title.toLowerCase().includes(word)\<close>, the test of both parsers.\<close>

definition title_includes :: "embed \<Rightarrow> string \<Rightarrow> bool" where
  "title_includes e word =
     (case title e of
        None \<Rightarrow> False
      | Some t \<Rightarrow> t \<noteq> [] \<and> includes_str (toLowerCase t) word)"

text \<open>The \<open>data\<close> object that both parsers start from.\<close>

definition initial_data :: purchase_data where
  "initial_data = \<lparr>invoiceId = None, productName = None, quantity = 1, inGameName = None,
                    productId = None, status = Some ''completed''\<rparr>"

subsection \<open>The parser that reads embed fields\<close>






subsection \<open>The parser that reads the description\<close>

text \<open>\<open>line.replace(/\*\*/g, '')\<close>: every pair of stars is removed, from left to right.\<close>

fun remove_bold :: "string \<Rightarrow> string" where
  "remove_bold (a # b # r) =
     (if a = CHR ''*'' \<and> b = CHR ''*'' then remove_bold r else a # remove_bold (b # r))"
| "remove_bold s = s"

text \<open>
  The first group of \<open>/(\d+)\s*x/\<close> in a line: the match starts at the first digit after
  whose run of digits and white space an \<open>x\<close> follows, and the group is this run of digits.
\<close>

fun price_match :: "string \<Rightarrow> string option" where
  "price_match [] = None"
| "price_match (c # cs) =
     (if is_digit c \<and> starts_with (dropWhile is_space (dropWhile is_digit cs)) ''x''
      then Some (c # takeWhile is_digit cs)
      else price_match cs)"

text \<open>
  One round of the loop over the lines, for a line that has a successor (every branch
  asks for \<open>i + 1 < lines.length\<close>): \<open>line\<close> is \<open>lines[i]\<close> and \<open>next\<close> is \<open>lines[i + 1]\<close>. The
  \<open>price\<close> property, which nothing reads, is left out.
\<close>

definition parseLabel :: "config \<Rightarrow> string \<Rightarrow> string \<Rightarrow> purchase_data \<Rightarrow> purchase_data" where
  "parseLabel cfg line next data =
     (let cleanLine = remove_bold (trim line)
      in if cleanLine = ''Invoice ID'' then data\<lparr>invoiceId := Some (trim next)\<rparr>
         else if cleanLine = ''Product'' then data\<lparr>productName := Some (trim next)\<rparr>
         else if cleanLine = ''Price''
           then (case price_match (trim next) of
                   None \<Rightarrow> data
                 | Some g \<Rightarrow> (case parseInt g of None \<Rightarrow> data | Some q \<Rightarrow> data\<lparr>quantity := q\<rparr>))
         else if cleanLine = ''In game name'' then data\<lparr>inGameName := Some (trim next)\<rparr>
         else if cleanLine = customFieldName cfg then data\<lparr>inGameName := Some (trim next)\<rparr>
         else data)"

fun parseLines :: "config \<Rightarrow> string list \<Rightarrow> purchase_data \<Rightarrow> purchase_data" where
  "parseLines cfg (line # next # rest) data =
     parseLines cfg (next # rest) (parseLabel cfg line next data)"
| "parseLines cfg lines data = data"

definition parseDiscordWebhook :: "config \<Rightarrow> discord_body \<Rightarrow> purchase_data option" where
  "parseDiscordWebhook cfg body =
     (case embeds body of
        None \<Rightarrow> None
      | Some [] \<Rightarrow> None
      | Some (embed0 # _) \<Rightarrow>
          if \<not> title_includes embed0 ''sale'' then None
          else case description embed0 of
                 None \<Rightarrow> None
               | Some d \<Rightarrow>
                   if d = [] then None
                   else
                     let data = parseLines cfg (split_lines d) initial_data
                     in if \<not> truthy (inGameName data) then None else Some data)"

definition webhook_discord :: "config \<Rightarrow> discord_body \<Rightarrow> state \<Rightarrow> (response \<times> state) option" where
  "webhook_discord cfg body s =
     (case parseDiscordWebhook cfg body of
        None \<Rightarrow> Some (Response 200 ''OK'', s)
      | Some purchaseData \<Rightarrow>
          (case processPurchase cfg purchaseData s of
             None \<Rightarrow> None
           | Some (Returned, s1) \<Rightarrow> Some (Response 200 ''OK'', s1)
           | Some (Threw e, s1) \<Rightarrow> Some (Response 500 ''Internal Server Error'', s1)))"

section \<open>Reading the state, and example inputs\<close>

text \<open>
  The commands that went through \<open>queueCommand\<close> and were not lost: those handed to the
  session, in the order of the \<open>bot.chat\<close> calls, then those still pending.
\<close>

definition outgoing :: "state \<Rightarrow> string list" where
  "outgoing s = map snd (sent s) @ commandQueue s"


text \<open>The configuration without \<open>PRODUCT_CONFIG\<close> and \<open>CUSTOM_FIELD_NAME\<close> in the environment.\<close>

definition default_config :: config where
  "default_config = \<lparr>products = parseProductConfig None, customFieldName = ''in_game_name''\<rparr>"

definition gold_pack :: product_config where
  "gold_pack = \<lparr>name = ''Gold Pack'', amountPerUnit = 1000000, onPurchaseCommand = Some ''/afk 33''\<rparr>"

definition silver_pack :: product_config where
  "silver_pack = \<lparr>name = ''Silver Pack'', amountPerUnit = 1500, onPurchaseCommand = None\<rparr>"

definition two_product_config :: config where
  "two_product_config =
     \<lparr>products = [(''gold'', gold_pack), (''silver'', silver_pack)],
      customFieldName = ''in_game_name''\<rparr>"


definition quiet_pack :: product_config where
  "quiet_pack = \<lparr>name = ''Quiet Pack'', amountPerUnit = 1500, onPurchaseCommand = Some ''''\<rparr>"

definition quiet_config :: config where
  "quiet_config = \<lparr>products = [(''quiet'', quiet_pack)], customFieldName = ''in_game_name''\<rparr>"

text \<open>The state after \<open>start()\<close>, before the bot has spawned, and once it has.\<close>

definition started_state :: state where
  "started_state = \<lparr>bot = True, isReady = False, commandQueue = [], sent = [], clock = 0,
                     timers = [], purchaseLog = []\<rparr>"

definition connected_state :: state where
  "connected_state = started_state\<lparr>isReady := True\<rparr>"

definition two_pending_state :: state where
  "two_pending_state = connected_state\<lparr>commandQueue := [''/afk 33'', ''/pay Steve 1m'']\<rparr>"

definition steve_item :: "string option \<Rightarrow> int option \<Rightarrow> line_item" where
  "steve_item pn q = \<lparr>product_name = pn, item_name = None, item_quantity = q\<rparr>"

definition steve_invoice :: "string \<Rightarrow> line_item list \<Rightarrow> invoice" where
  "steve_invoice st its =
     \<lparr>inv_id = Some ''INV1'', invoice_id = None, inv_status = Some st,
      custom_fields = Some [(''in_game_name'', ''Steve'')], custom_field_values = None,
      items = Some its\<rparr>"

text \<open>A purchase of Steve's, and a sale notification that names no product.\<close>

definition steve_purchase :: "string option \<Rightarrow> int \<Rightarrow> purchase_data" where
  "steve_purchase pn q = initial_data\<lparr>productName := pn, quantity := q, inGameName := Some ''Steve''\<rparr>"

definition sale_without_product :: discord_body where
  "sale_without_product =
     \<lparr>embeds = Some [\<lparr>title = Some ''New Sale'',
                       description = Some ''**In game name**\<newline>Alex'',
                       embed_fields = None\<rparr>]\<rparr>"

section \<open>The claims' readings, and their example inputs\<close>




text \<open>
  The categories of an embed field, by the tests of \<open>parseField\<close> in their order: the first
  test that holds decides.
\<close>

datatype category = Invoice | Product | Quantity | RecipientName | ProductId








section \<open>Properties of the queue\<close>

lemma processCommandQueue_not_ready:
  "\<not> isReady s \<Longrightarrow> processCommandQueue s = Some s"
  by (subst processCommandQueue.simps) simp

lemma processCommandQueue_empty:
  "commandQueue s = [] \<Longrightarrow> processCommandQueue s = Some s"
  by (subst processCommandQueue.simps) simp

lemma processCommandQueue_ready:
  "bot s \<Longrightarrow> isReady s \<Longrightarrow>
   processCommandQueue s =
     Some (s\<lparr>commandQueue := [],
             sent := sent s @ map (Pair (clock s)) (commandQueue s),
             timers := timers s @ map (\<lambda>c. (clock s + 500, ResolveDelay)) (commandQueue s)\<rparr>)"
proof (induction "commandQueue s" arbitrary: s)
  case Nil
  then show ?case
    by (subst processCommandQueue.simps) simp
next
  case (Cons c cs)
  define s1 where "s1 = s\<lparr>commandQueue := cs, sent := sent s @ [(clock s, c)],
                    timers := timers s @ [(clock s + 500, ResolveDelay)]\<rparr>"
  have q: "commandQueue s = c # cs" using Cons.hyps(2) by simp
  have step: "fst (executeCommand c (s\<lparr>commandQueue := cs\<rparr>)) = s1"
    using Cons.prems by (simp add: executeCommand_def s1_def)
  have "processCommandQueue s = processCommandQueue s1"
    using Cons.prems by (subst processCommandQueue.simps) (simp add: q step)
  also have "\<dots> = Some (s1\<lparr>commandQueue := [],
             sent := sent s1 @ map (Pair (clock s1)) (commandQueue s1),
             timers := timers s1 @ map (\<lambda>c. (clock s1 + 500, ResolveDelay)) (commandQueue s1)\<rparr>)"
    using Cons.prems by (intro Cons.hyps(1)) (simp_all add: s1_def)
  finally show ?case
    by (simp add: s1_def q)
qed


lemma queueCommand_not_ready:
  "\<not> isReady s \<Longrightarrow> queueCommand c s = Some (s\<lparr>commandQueue := commandQueue s @ [c]\<rparr>)"
  by (simp add: queueCommand_def)

lemma queueCommand_ready:
  "bot s \<Longrightarrow> isReady s \<Longrightarrow>
   queueCommand c s =
     Some (s\<lparr>commandQueue := [],
             sent := sent s @ map (Pair (clock s)) (commandQueue s @ [c]),
             timers := timers s @ map (\<lambda>c. (clock s + 500, ResolveDelay)) (commandQueue s @ [c])\<rparr>)"
  by (simp add: queueCommand_def processCommandQueue_ready)

text \<open>
  In a state where the loop ends (a bot exists, or the bot is not ready),
  \<open>queueCommand\<close> returns, and the command is the last of the outgoing commands.
\<close>

lemma queueCommand_outgoing:
  assumes "bot s \<or> \<not> isReady s"
  shows "\<exists>s'. queueCommand c s = Some s' \<and> outgoing s' = outgoing s @ [c]
           \<and> bot s' = bot s \<and> isReady s' = isReady s \<and> clock s' = clock s
           \<and> purchaseLog s' = purchaseLog s
           \<and> (\<not> isReady s \<longrightarrow> sent s' = sent s \<and> commandQueue s' = commandQueue s @ [c])"
proof (cases "isReady s")
  case True
  with assms have "bot s" by simp
  from queueCommand_ready [OF this True, of c] show ?thesis
    using True by (simp add: outgoing_def comp_def)
next
  case False
  from queueCommand_not_ready [OF this, of c] show ?thesis
    using False by (simp add: outgoing_def)
qed

section \<open>Properties of the invoice webhook\<close>

text \<open>
  C6. An invoice whose status is not \<open>"completed"\<close> is acknowledged with 200 and \<open>OK\<close>, and
  the state after the request is the state before it: no call of \<open>processPurchase\<close> was
  logged (no purchase record), and nothing was queued or sent.
\<close>

theorem sellauth_not_completed_noop:
  assumes "inv_status invoice \<noteq> Some ''completed''"
  shows "webhook_sellauth cfg invoice s = Some (Response 200 ''OK'', s)"
  using assms by (simp add: webhook_sellauth_def)

theorem sellauth_not_completed_noop_witness:
  "inv_status (steve_invoice ''pending'' [steve_item (Some ''Default Package'') (Some 2)])
     \<noteq> Some ''completed''
   \<and> webhook_sellauth default_config
        (steve_invoice ''pending'' [steve_item (Some ''Default Package'') (Some 2)])
        connected_state
      = Some (Response 200 ''OK'', connected_state)"
proof -
  have h: "inv_status (steve_invoice ''pending'' [steve_item (Some ''Default Package'') (Some 2)])
             \<noteq> Some ''completed''"
    by (simp add: steve_invoice_def)
  from sellauth_not_completed_noop [OF h] h show ?thesis by simp
qed


section \<open>Properties of the dispatch queue\<close>





text \<open>
  C1. The loop of \<open>processCommandQueue\<close> does not wait between two commands. With a bot
  that is ready, it returns with an empty queue, every pending command is handed to the
  session at the time the loop started, and the clock has not moved: a timer of 500 ms is
  set for each command, and nothing waits for it.
\<close>

theorem processCommandQueue_no_delay:
  assumes "bot s" and "isReady s"
  shows "\<exists>s'. processCommandQueue s = Some s' \<and> commandQueue s' = [] \<and> clock s' = clock s
           \<and> sent s' = sent s @ map (\<lambda>c. (clock s, c)) (commandQueue s)
           \<and> timers s' = timers s @ map (\<lambda>c. (clock s + 500, ResolveDelay)) (commandQueue s)"
  using processCommandQueue_ready [OF assms] by simp

theorem processCommandQueue_no_delay_witness:
  "\<exists>s'. processCommandQueue two_pending_state = Some s' \<and> commandQueue s' = [] \<and> clock s' = 0
        \<and> sent s' = [(0, ''/afk 33''), (0, ''/pay Steve 1m'')]
        \<and> timers s' = [(500, ResolveDelay), (500, ResolveDelay)]"
proof -
  have h: "bot two_pending_state" "isReady two_pending_state"
    by (simp_all add: two_pending_state_def connected_state_def started_state_def)
  from processCommandQueue_no_delay [OF h] show ?thesis
    by (simp add: two_pending_state_def connected_state_def started_state_def)
qed

section \<open>Properties of the purchase processor\<close>

lemma matchByName_None:
  "ps \<noteq> [] \<Longrightarrow> matchByName ps None = Inl TypeError"
  by (cases ps) auto

lemma matchByName_Some:
  "matchByName ps (Some n)
     = Inr (map_option (\<lambda>(pid, pc). (pid, Configured pc))
              (find (\<lambda>(pid, pc). toLowerCase (name pc) = toLowerCase n) ps))"
  by (induction ps) auto

lemma lookupById_None:
  "pid = None \<or> pid = Some []
     \<or> (\<exists>k. pid = Some k \<and> map_of ps k = None \<and> k \<notin> set object_prototype_names)
   \<Longrightarrow> lookupById ps pid = None"
  by auto




text \<open>
  C9, as amended. A purchase with a non-empty recipient name whose product resolves to
  a catalog entry returns normally, in a state where the queue loop ends (a bot exists, or
  the bot is not ready). When the entry has a non-empty \<open>onPurchaseCommand\<close>, exactly two
  commands are added to the outgoing commands, in this order: the \<open>onPurchaseCommand\<close> as
  it is, once, and \<open>/pay <recipient> <formatAmount (amountPerUnit * quantity)>\<close>. When the
  entry has no \<open>onPurchaseCommand\<close> or an empty one, the payment command alone is added.
  While the bot is not ready nothing is sent, so the commands are added to the pending
  queue. The amount per unit, the quantity and their product are in the range where the
  model's integers are JavaScript's numbers.
\<close>

theorem processPurchase_commands:
  assumes "inGameName data = Some recipient" and "recipient \<noteq> []"
    and "findProduct cfg data = Inr (Some (pid, Configured pc))"
    and "bot s \<or> \<not> isReady s"
    and "in_double_range (amountPerUnit pc)" and "in_double_range (quantity data)"
    and "in_double_range (amountPerUnit pc * quantity data)"
  shows "\<exists>s'. processPurchase cfg data s = Some (Returned, s')
           \<and> (\<forall>c. onPurchaseCommand pc = Some c \<and> c \<noteq> [] \<longrightarrow>
                  outgoing s' = outgoing s
                    @ [c, ''/pay '' @ recipient @ '' ''
                            @ formatAmount (Number (amountPerUnit pc * quantity data))])
           \<and> (\<not> truthy (onPurchaseCommand pc) \<longrightarrow>
                  outgoing s' = outgoing s
                    @ [''/pay '' @ recipient @ '' ''
                         @ formatAmount (Number (amountPerUnit pc * quantity data))])
           \<and> (\<not> isReady s \<longrightarrow> sent s' = sent s)"
proof -
  define s0 where "s0 = s\<lparr>purchaseLog := purchaseLog s @ [data]\<rparr>"
  define pay where
    "pay = payCommand recipient (formatAmount (Number (amountPerUnit pc * quantity data)))"
  have pay_eq: "pay = ''/pay '' @ recipient @ '' ''
                        @ formatAmount (Number (amountPerUnit pc * quantity data))"
    by (simp add: pay_def payCommand_def)
  have s0: "bot s0 \<or> \<not> isReady s0" "outgoing s0 = outgoing s" "isReady s0 = isReady s"
    "sent s0 = sent s"
    using assms(4) by (simp_all add: s0_def outgoing_def)
  show ?thesis
  proof (cases "truthy (onPurchaseCommand pc)")
    case True
    then obtain c where c: "onPurchaseCommand pc = Some c" "c \<noteq> []"
      by (cases "onPurchaseCommand pc") auto
    from queueCommand_outgoing [OF s0(1), of c] obtain s1 where
      s1: "queueCommand c s0 = Some s1" "outgoing s1 = outgoing s0 @ [c]"
        "bot s1 = bot s0" "isReady s1 = isReady s0"
        "\<not> isReady s0 \<longrightarrow> sent s1 = sent s0 \<and> commandQueue s1 = commandQueue s0 @ [c]"
      by blast
    have "bot s1 \<or> \<not> isReady s1" using s0(1) s1(3,4) by simp
    from queueCommand_outgoing [OF this, of pay] obtain s2 where
      s2: "queueCommand pay s1 = Some s2" "outgoing s2 = outgoing s1 @ [pay]"
        "\<not> isReady s1 \<longrightarrow> sent s2 = sent s1 \<and> commandQueue s2 = commandQueue s1 @ [pay]"
      by blast
    have "processPurchase cfg data s = Some (Returned, s2)"
      using assms(1-3) c s1(1) s2(1)
      by (simp add: processPurchase_def Let_def s0_def [symmetric] pay_def [symmetric])
    moreover have "outgoing s2 = outgoing s @ [c, pay]"
      using s1(2) s2(2) s0(2) by simp
    moreover have "\<not> isReady s \<longrightarrow> sent s2 = sent s"
      using s1(4,5) s2(3) s0(3,4) by simp
    ultimately show ?thesis
      using c True by (auto simp: pay_eq)
  next
    case False
    from queueCommand_outgoing [OF s0(1), of pay] obtain s2 where
      s2: "queueCommand pay s0 = Some s2" "outgoing s2 = outgoing s0 @ [pay]"
        "\<not> isReady s0 \<longrightarrow> sent s2 = sent s0 \<and> commandQueue s2 = commandQueue s0 @ [pay]"
      by blast
    have "processPurchase cfg data s = Some (Returned, s2)"
      using assms(1-3) False s2(1)
      by (cases "onPurchaseCommand pc")
         (simp_all add: processPurchase_def Let_def s0_def [symmetric] pay_def [symmetric])
    moreover have "outgoing s2 = outgoing s @ [pay]"
      using s2(2) s0(2) by simp
    moreover have "\<not> isReady s \<longrightarrow> sent s2 = sent s"
      using s2(3) s0(3,4) by simp
    ultimately show ?thesis
      using False by (auto simp: pay_eq)
  qed
qed

text \<open>
  The witness: two default packages for Steve while the bot is away leave \<open>/afk 33\<close>
  and then \<open>/pay Steve 2m\<close> in the queue.
\<close>

theorem processPurchase_commands_witness:
  "\<exists>s'. processPurchase default_config (steve_purchase (Some ''default package'') 2) started_state
           = Some (Returned, s')
        \<and> commandQueue s' = [''/afk 33'', ''/pay Steve 2m''] \<and> sent s' = []"
proof -
  let ?pc = "\<lparr>name = ''Default Package'', amountPerUnit = 1000000,
              onPurchaseCommand = Some ''/afk 33''\<rparr>"
  let ?d = "steve_purchase (Some ''default package'') 2"
  have fmt: "formatAmount (Number (amountPerUnit ?pc * quantity ?d)) = ''2m''"
    by code_simp
  have found: "findProduct default_config ?d = Inr (Some (''default'', Configured ?pc))"
    by code_simp
  have name: "inGameName ?d = Some ''Steve''"
    by (simp add: steve_purchase_def)
  have ne: "''Steve'' \<noteq> []" by simp
  have st: "bot started_state \<or> \<not> isReady started_state"
    by (simp add: started_state_def)
  have range: "in_double_range (amountPerUnit ?pc)" "in_double_range (quantity ?d)"
    "in_double_range (amountPerUnit ?pc * quantity ?d)"
    by (simp_all add: in_double_range_def steve_purchase_def)
  from processPurchase_commands [OF name ne found st range]
  obtain s' where s': "processPurchase default_config ?d started_state = Some (Returned, s')"
    and out: "\<forall>c. onPurchaseCommand ?pc = Some c \<and> c \<noteq> [] \<longrightarrow>
                  outgoing s' = outgoing started_state
                    @ [c, ''/pay '' @ ''Steve'' @ '' ''
                            @ formatAmount (Number (amountPerUnit ?pc * quantity ?d))]"
    and snt: "\<not> isReady started_state \<longrightarrow> sent s' = sent started_state"
    by blast
  from out have "outgoing s' = outgoing started_state @ [''/afk 33'', ''/pay Steve 2m'']"
    by (simp only: fmt) simp
  moreover from snt have "sent s' = []"
    by (simp add: started_state_def)
  ultimately have "commandQueue s' = [''/afk 33'', ''/pay Steve 2m'']"
    by (simp add: outgoing_def started_state_def)
  with s' \<open>sent s' = []\<close> show ?thesis by blast
qed

text \<open>
  The counterexample to C9 as it was stated: the quiet pack has an \<open>onPurchaseCommand\<close>,
  the empty string, and a purchase of it queues one command, the payment. The test
  \<open>if (productConfig.onPurchaseCommand)\<close> reads the empty command as no command.
\<close>

theorem processPurchase_empty_command_counterexample:
  "onPurchaseCommand quiet_pack = Some ''''
   \<and> findProduct quiet_config (steve_purchase (Some ''quiet pack'') 1)
       = Inr (Some (''quiet'', Configured quiet_pack))
   \<and> processPurchase quiet_config (steve_purchase (Some ''quiet pack'') 1) started_state
       = Some (Returned,
               started_state\<lparr>commandQueue := [''/pay Steve 1.5k''],
                              purchaseLog := [steve_purchase (Some ''quiet pack'') 1]\<rparr>)"
  by code_simp

text \<open>
  C10. A purchase with a recipient name, no product name, and a product id that is
  absent, or that is neither a key of the catalog nor a name that every object inherits,
  makes \<open>processPurchase\<close> throw a TypeError as soon as the catalog has an entry: the loop
  over the catalog calls \<open>toLowerCase\<close> on the missing name. No unknown-product outcome
  is returned; the handler of \<open>/webhook/discord\<close> catches the exception and answers 500.
\<close>

theorem processPurchase_throws_without_product_name:
  assumes "truthy (inGameName data)" and "productName data = None"
    and "productId data = None
         \<or> (\<exists>k. productId data = Some k \<and> map_of (products cfg) k = None
                \<and> k \<notin> set object_prototype_names)"
    and "products cfg \<noteq> []"
  shows "processPurchase cfg data s
           = Some (Threw TypeError, s\<lparr>purchaseLog := purchaseLog s @ [data]\<rparr>)
         \<and> (\<forall>body. parseDiscordWebhook cfg body = Some data \<longrightarrow>
               webhook_discord cfg body s
                 = Some (Response 500 ''Internal Server Error'',
                         s\<lparr>purchaseLog := purchaseLog s @ [data]\<rparr>))"
proof -
  have "lookupById (products cfg) (productId data) = None"
    using assms(3) by (intro lookupById_None) auto
  then have "findProduct cfg data = Inl TypeError"
    using assms(2,4) by (simp add: findProduct_def matchByName_None)
  then have "processPurchase cfg data s
           = Some (Threw TypeError, s\<lparr>purchaseLog := purchaseLog s @ [data]\<rparr>)"
    using assms(1) by (cases "inGameName data") (simp_all add: processPurchase_def Let_def)
  then show ?thesis
    by (simp add: webhook_discord_def)
qed

text \<open>
  The witness: a sale notification whose description gives the recipient and no product,
  with the default catalog.
\<close>

theorem processPurchase_throws_without_product_name_witness:
  "parseDiscordWebhook default_config sale_without_product
     = Some (initial_data\<lparr>inGameName := Some ''Alex''\<rparr>)
   \<and> webhook_discord default_config sale_without_product connected_state
     = Some (Response 500 ''Internal Server Error'',
             connected_state\<lparr>purchaseLog := [initial_data\<lparr>inGameName := Some ''Alex''\<rparr>]\<rparr>)"
proof -
  have parse: "parseDiscordWebhook default_config sale_without_product
     = Some (initial_data\<lparr>inGameName := Some ''Alex''\<rparr>)"
    by code_simp
  from processPurchase_throws_without_product_name
    [of "initial_data\<lparr>inGameName := Some ''Alex''\<rparr>" default_config connected_state]
  have "\<forall>body. parseDiscordWebhook default_config body = Some (initial_data\<lparr>inGameName := Some ''Alex''\<rparr>) \<longrightarrow>
               webhook_discord default_config body connected_state
                 = Some (Response 500 ''Internal Server Error'',
                         connected_state\<lparr>purchaseLog := purchaseLog connected_state
                            @ [initial_data\<lparr>inGameName := Some ''Alex''\<rparr>]\<rparr>)"
    by (simp add: initial_data_def default_config_def parseProductConfig_def)
  with parse show ?thesis
    by (simp add: connected_state_def started_state_def)
qed

section \<open>Properties of the amount formatter\<close>

























section \<open>Line items of an invoice\<close>

text \<open>
  A product id that every object inherits and that is no key of the catalog: the lookup
  by id succeeds, nothing is read from the inherited value, and the payment is \<open>NaN\<close>.
\<close>

lemma processPurchase_inherited_id:
  "processPurchase two_product_config
     ((steve_purchase (Some ''silver pack'') 1)\<lparr>productId := Some ''constructor''\<rparr>) started_state
   = Some (Returned,
           started_state\<lparr>commandQueue := [''/pay Steve NaN''],
                          purchaseLog := [(steve_purchase (Some ''silver pack'') 1)
                                            \<lparr>productId := Some ''constructor''\<rparr>]\<rparr>)"
  by code_simp

lemma itemData_again: "itemData (itemData data a) b = itemData data b"
  by (simp add: itemData_def)

lemma itemData_keeps:
  "invoiceId (itemData data item) = invoiceId data"
  "status (itemData data item) = status data"
  "inGameName (itemData data item) = inGameName data"
  "productId (itemData data item) = productId data"
  by (simp_all add: itemData_def)

text \<open>
  A purchase with a recipient and a product name returns, whatever the catalog holds,
  in a state where the queue loop ends; it is logged, and the loop still ends afterwards.
\<close>

lemma processPurchase_returns:
  assumes "truthy (inGameName data)" and "productName data = Some n" and "bot s \<or> \<not> isReady s"
  shows "\<exists>s'. processPurchase cfg data s = Some (Returned, s')
           \<and> purchaseLog s' = purchaseLog s @ [data] \<and> (bot s' \<or> \<not> isReady s')"
proof -
  from assms(1) obtain recipient where r: "inGameName data = Some recipient" "recipient \<noteq> []"
    by (cases "inGameName data") auto
  define s0 where "s0 = s\<lparr>purchaseLog := purchaseLog s @ [data]\<rparr>"
  have s0: "bot s0 \<or> \<not> isReady s0" "purchaseLog s0 = purchaseLog s @ [data]"
    using assms(3) by (simp_all add: s0_def)
  have nothrow: "findProduct cfg data \<noteq> Inl TypeError"
    using assms(2) by (simp add: findProduct_def matchByName_Some split: option.splits)
  show ?thesis
  proof (cases "findProduct cfg data")
    case (Inl e)
    with nothrow show ?thesis by (cases e) simp
  next
    case (Inr found)
    show ?thesis
    proof (cases found)
      case None
      with Inr r s0 show ?thesis
        by (simp add: processPurchase_def Let_def s0_def [symmetric])
    next
      case (Some m)
      obtain pid pc where m: "m = (pid, pc)" by (cases m)
      define pay where
        "pay = payCommand recipient (formatAmount (js_times (amountPerUnit_of pc) (quantity data)))"
      have "\<exists>s1. (case onPurchaseCommand_of pc of None \<Rightarrow> Some s0
                   | Some c \<Rightarrow> if c = [] then Some s0 else queueCommand c s0) = Some s1
                 \<and> (bot s1 \<or> \<not> isReady s1) \<and> purchaseLog s1 = purchaseLog s0"
      proof (cases "onPurchaseCommand_of pc")
        case None
        with s0 show ?thesis by simp
      next
        case (Some c)
        show ?thesis
        proof (cases "c = []")
          case True
          with Some s0 show ?thesis by simp
        next
          case False
          from queueCommand_outgoing [OF s0(1), of c] Some False show ?thesis
            using s0(1) by auto
        qed
      qed
      then obtain s1 where s1: "(case onPurchaseCommand_of pc of None \<Rightarrow> Some s0
                   | Some c \<Rightarrow> if c = [] then Some s0 else queueCommand c s0) = Some s1"
        "bot s1 \<or> \<not> isReady s1" "purchaseLog s1 = purchaseLog s0"
        by blast
      from queueCommand_outgoing [OF s1(2), of pay] obtain s2 where
        s2: "queueCommand pay s1 = Some s2" "bot s2 = bot s1" "isReady s2 = isReady s1"
          "purchaseLog s2 = purchaseLog s1"
        by blast
      have "processPurchase cfg data s = Some (Returned, s2)"
        using r Inr Some m s1(1) s2(1)
        by (simp add: processPurchase_def Let_def s0_def [symmetric] pay_def [symmetric])
      with s1 s2 s0 show ?thesis by simp
    qed
  qed
qed

text \<open>
  When every item names a product, the loop over the items logs one purchase per item,
  in the order of the items, and returns.
\<close>

lemma processItems_all_named:
  assumes "truthy (inGameName data)"
    and "\<forall>item \<in> set its. js_or (product_name item) (item_name item) \<noteq> None"
    and "bot s \<or> \<not> isReady s"
  shows "\<exists>s'. processItems cfg data its s = Some (Returned, s')
           \<and> purchaseLog s' = purchaseLog s @ map (itemData data) its"
  using assms
proof (induction its arbitrary: data s)
  case Nil
  then show ?case by simp
next
  case (Cons item its)
  from Cons.prems(2) obtain n where n: "productName (itemData data item) = Some n"
    by (auto simp: itemData_def)
  have tr: "truthy (inGameName (itemData data item))"
    using Cons.prems(1) by (simp add: itemData_keeps)
  from processPurchase_returns [OF tr n Cons.prems(3), of cfg] obtain s1 where
    s1: "processPurchase cfg (itemData data item) s = Some (Returned, s1)"
      "purchaseLog s1 = purchaseLog s @ [itemData data item]" "bot s1 \<or> \<not> isReady s1"
    by blast
  from Cons.IH [OF tr _ s1(3)] Cons.prems(2) obtain s' where
    "processItems cfg (itemData data item) its s1 = Some (Returned, s')"
    "purchaseLog s' = purchaseLog s1 @ map (itemData (itemData data item)) its"
    by auto
  with s1 show ?case
    by (simp add: itemData_again)
qed

text \<open>
  C7. A completed invoice of Steve's with two items, of which the first names no
  product: \<open>processPurchase\<close> throws on the first item, the handler answers 500, and the
  second item, a default package, is never processed. Only the first purchase is logged,
  and nothing is queued or sent.
\<close>

theorem sellauth_item_without_name_stops_the_loop:
  "webhook_sellauth default_config
     (steve_invoice ''completed'' [steve_item None (Some 2), steve_item (Some ''Default Package'') None])
     connected_state
   = Some (Response 500 ''Internal Server Error'',
           connected_state\<lparr>purchaseLog :=
             [\<lparr>invoiceId = Some ''INV1'', productName = None, quantity = 2,
               inGameName = Some ''Steve'', productId = None, status = Some ''completed''\<rparr>]\<rparr>)"
  by code_simp

text \<open>
  The same invoice with its items in the other order: the default package is processed
  and paid, then the item without a name throws and the handler answers 500.
\<close>

lemma sellauth_item_without_name_last:
  "webhook_sellauth default_config
     (steve_invoice ''completed'' [steve_item (Some ''Default Package'') None, steve_item None (Some 2)])
     started_state
   = Some (Response 500 ''Internal Server Error'',
           started_state\<lparr>commandQueue := [''/afk 33'', ''/pay Steve 1m''],
             purchaseLog :=
             [\<lparr>invoiceId = Some ''INV1'', productName = Some ''Default Package'', quantity = 1,
               inGameName = Some ''Steve'', productId = None, status = Some ''completed''\<rparr>,
              \<lparr>invoiceId = Some ''INV1'', productName = None, quantity = 2,
               inGameName = Some ''Steve'', productId = None, status = Some ''completed''\<rparr>]\<rparr>)"
  by code_simp

section \<open>The recipient of an invoice\<close>

text \<open>
  A completed invoice with a recipient whose items all name a product is answered with
  200, and one purchase per item is logged, each with the invoice's id, status and
  recipient and with the product name and quantity of its item.
\<close>

lemma sellauth_items_all_named:
  assumes "customFieldName cfg \<notin> set object_prototype_names"
    and "inv_status invoice = Some ''completed''"
    and "truthy (extractInGameName cfg invoice)"
    and "items invoice = Some its"
    and "\<forall>item \<in> set its. js_or (product_name item) (item_name item) \<noteq> None"
    and "bot s \<or> \<not> isReady s"
  shows "\<exists>s'. webhook_sellauth cfg invoice s = Some (Response 200 ''OK'', s')
           \<and> purchaseLog s' = purchaseLog s
                @ map (itemData \<lparr>invoiceId = js_or (inv_id invoice) (invoice_id invoice),
                                 productName = None, quantity = 1,
                                 inGameName = extractInGameName cfg invoice, productId = None,
                                 status = inv_status invoice\<rparr>) its"
proof -
  let ?data = "\<lparr>invoiceId = js_or (inv_id invoice) (invoice_id invoice),
                 productName = None, quantity = 1,
                 inGameName = extractInGameName cfg invoice, productId = None,
                 status = inv_status invoice\<rparr>"
  have "truthy (inGameName ?data)" using assms(3) by simp
  from processItems_all_named [OF this assms(5,6), of cfg] obtain s' where
    "processItems cfg ?data its s = Some (Returned, s')"
    "purchaseLog s' = purchaseLog s @ map (itemData ?data) its"
    by blast
  then show ?thesis
    using assms(2-4) by (simp add: webhook_sellauth_def Let_def)
qed




section \<open>The parser of embed fields\<close>









end
